theory Spec2Isabelle
  imports Main
begin

section \<open>Messages and the per-session SQLite table\<close>

text \<open>
  A shallow embedding of \<^verbatim>\<open>src/cf-ai-chat/src/index.ts\<close>: the Durable Object
  \<^verbatim>\<open>MyDurableObject\<close> (one SQLite table of messages per session) and the worker's
  \<^verbatim>\<open>fetch\<close> handler. The role of a message is the TypeScript union
  \<^verbatim>\<open>"user" | "assistant" | "system"\<close>.
\<close>

datatype role = User | Assistant | System

fun role_name :: "role \<Rightarrow> string" where
  "role_name User = ''user''"
| "role_name Assistant = ''assistant''"
| "role_name System = ''system''"

record ChatMessage =
  role :: role
  content :: string

text \<open>
  One row of the table \<^verbatim>\<open>messages\<close>. The column \<^verbatim>\<open>created_at\<close> is left out: it is
  filled by the database clock and no statement of the source reads it.
\<close>

record row =
  row_id :: nat
  row_role :: role
  row_content :: string

text \<open>
  The storage of one Durable Object: the rows of \<^verbatim>\<open>messages\<close> and the counter that
  \<^verbatim>\<open>AUTOINCREMENT\<close> keeps (the largest id ever handed out, which a \<^verbatim>\<open>DELETE\<close> does not
  reset). Ids are unbounded naturals here, and a statement always runs to its end: a
  fault of the storage layer is not part of the model.
\<close>

record SqlStorage =
  messages :: "row list"
  sqlite_sequence :: nat

definition max_id :: "row list \<Rightarrow> nat" where
  "max_id rs = foldr max (map row_id rs) 0"

text \<open>\<^verbatim>\<open>INSERT INTO messages (role, content) VALUES (?, ?)\<close>: the new id is one more
  than the largest id the table has ever held.\<close>

definition sql_insert :: "role \<Rightarrow> string \<Rightarrow> SqlStorage \<Rightarrow> SqlStorage" where
  "sql_insert r c s =
     (let i = Suc (max (sqlite_sequence s) (max_id (messages s)))
      in \<lparr>messages = messages s @ [\<lparr>row_id = i, row_role = r, row_content = c\<rparr>],
          sqlite_sequence = i\<rparr>)"

text \<open>\<^verbatim>\<open>SELECT role, content FROM messages ORDER BY id ASC\<close>.\<close>

definition sql_select :: "SqlStorage \<Rightarrow> row list" where
  "sql_select s = sort_key row_id (messages s)"

text \<open>\<^verbatim>\<open>DELETE FROM messages\<close>.\<close>

definition sql_delete :: "SqlStorage \<Rightarrow> SqlStorage" where
  "sql_delete s = s\<lparr>messages := []\<rparr>"

text \<open>The constructor: \<^verbatim>\<open>CREATE TABLE IF NOT EXISTS messages\<close> on the object's storage,
  which is absent (\<open>None\<close>) before the object is first instantiated.\<close>

definition constructor :: "SqlStorage option \<Rightarrow> SqlStorage" where
  "constructor st =
     (case st of None \<Rightarrow> \<lparr>messages = [], sqlite_sequence = 0\<rparr> | Some s \<Rightarrow> s)"

section \<open>The methods of the Durable Object\<close>

text \<open>The loop of \<^verbatim>\<open>getHistory\<close>: every row of the cursor is pushed onto the result.\<close>

fun push_rows :: "row list \<Rightarrow> ChatMessage list \<Rightarrow> ChatMessage list" where
  "push_rows [] acc = acc"
| "push_rows (r # rs) acc =
     push_rows rs (acc @ [\<lparr>role = row_role r, content = row_content r\<rparr>])"

definition getHistory :: "SqlStorage \<Rightarrow> ChatMessage list" where
  "getHistory s = push_rows (sql_select s) []"

definition addMessage :: "role \<Rightarrow> string \<Rightarrow> SqlStorage \<Rightarrow> SqlStorage" where
  "addMessage r c s = sql_insert r c s"

definition clearHistory :: "SqlStorage \<Rightarrow> SqlStorage" where
  "clearHistory s = sql_delete s"

subsection \<open>The inference call\<close>

text \<open>
  What \<^verbatim>\<open>env.AI.run\<close> resolves to, as the source reads it: a plain string, or an
  object whose field \<^verbatim>\<open>response\<close> is absent or a string (the cast
  \<^verbatim>\<open>{ response?: string }\<close>). A rejected call is an error value.
\<close>

datatype ai_output = AiText string | AiObject "string option"

datatype js_error = SyntaxError | TypeError | Thrown string

datatype json =
    JNull
  | JBool bool
  | JNum int
  | JStr string
  | JArr "json list"
  | JObj "(string \<times> json) list"

text \<open>
  The platform as the handler sees it: the inference binding (model name and message
  list to result), how \<^verbatim>\<open>getByName\<close> reads an argument that is not a string (the
  source passes whatever the body holds), and the clock of the health route.
\<close>

record env =
  AI_run :: "string \<Rightarrow> ChatMessage list \<Rightarrow> js_error + ai_output"
  name_of_value :: "json \<Rightarrow> js_error + string"
  now_iso :: string

definition model_name :: string where
  "model_name = ''@cf/meta/llama-3.3-70b-instruct-fp8-fast''"

definition system_prompt :: string where
  "system_prompt =
     ''You are a helpful, friendly AI assistant. Keep your responses concise but informative.''"

definition fallback_text :: string where
  "fallback_text = ''I apologize, but I couldn't generate a response.''"

text \<open>The extraction of the reply: \<^verbatim>\<open>typeof response === "string" ? response :
  response.response || "I apologize, ..."\<close>. The operator \<^verbatim>\<open>||\<close> takes its right side when
  the left one is \<^verbatim>\<open>undefined\<close> or the empty string.\<close>

fun assistantMessage :: "ai_output \<Rightarrow> string" where
  "assistantMessage (AiText t) = t"
| "assistantMessage (AiObject None) = fallback_text"
| "assistantMessage (AiObject (Some t)) = (if t = [] then fallback_text else t)"

text \<open>
  The outcome of \<^verbatim>\<open>chat\<close>: the returned text or the error thrown, the storage left
  behind, and the inference calls made (model name and message list).
\<close>

record chat_outcome =
  returned :: "js_error + string"
  storage :: SqlStorage
  ai_inputs :: "(string \<times> ChatMessage list) list"

definition chat :: "env \<Rightarrow> string \<Rightarrow> SqlStorage \<Rightarrow> chat_outcome" where
  "chat e userMessage s =
     (let s1 = addMessage User userMessage s;
          history = getHistory s1;
          msgs = \<lparr>role = System, content = system_prompt\<rparr> # history
      in case AI_run e model_name msgs of
           Inl err \<Rightarrow>
             \<lparr>returned = Inl err, storage = s1, ai_inputs = [(model_name, msgs)]\<rparr>
         | Inr response \<Rightarrow>
             (let reply = assistantMessage response;
                  s2 = addMessage Assistant reply s1
              in \<lparr>returned = Inr reply, storage = s2,
                  ai_inputs = [(model_name, msgs)]\<rparr>))"

section \<open>The worker\<close>

text \<open>The namespace \<^verbatim>\<open>MY_DURABLE_OBJECT\<close>: the storage of every object by name.
  \<^verbatim>\<open>getByName\<close> instantiates the object, which runs its constructor.\<close>

type_synonym namespace = "string \<rightharpoonup> SqlStorage"

definition getByName :: "namespace \<Rightarrow> string \<Rightarrow> SqlStorage" where
  "getByName w name = constructor (w name)"

text \<open>
  A request: its method, the path and the query pairs of its URL, and what
  \<^verbatim>\<open>request.json()\<close> gives (\<open>None\<close> when the body does not parse as JSON, in which case
  the call throws).
\<close>

record request =
  http_method :: string
  pathname :: string
  searchParams :: "(string \<times> string) list"
  body :: "json option"

datatype payload = NoBody | TextBody string | JsonBody json

record response =
  status :: nat
  headers :: "(string \<times> string) list"
  payload :: payload

text \<open>\<^verbatim>\<open>Response.json(data, init)\<close>, with the status and the headers of \<^verbatim>\<open>init\<close>
  (the content type that the platform adds by itself is not listed).\<close>

definition Response_json :: "json \<Rightarrow> nat \<Rightarrow> (string \<times> string) list \<Rightarrow> response" where
  "Response_json data st hs = \<lparr>status = st, headers = hs, payload = JsonBody data\<rparr>"

definition json_headers :: "(string \<times> string) list" where
  "json_headers =
     [(''Access-Control-Allow-Origin'', ''*''), (''Content-Type'', ''application/json'')]"

definition preflight_headers :: "(string \<times> string) list" where
  "preflight_headers =
     [(''Access-Control-Allow-Origin'', ''*''),
      (''Access-Control-Allow-Methods'', ''GET, POST, DELETE, OPTIONS''),
      (''Access-Control-Allow-Headers'', ''Content-Type'')]"

text \<open>Reading the property \<^verbatim>\<open>message\<close> or \<^verbatim>\<open>sessionId\<close> of a parsed body: an object
  holds it or not, and every other value that is not \<^verbatim>\<open>null\<close> has no such property
  (\<open>None\<close> is \<^verbatim>\<open>undefined\<close>).\<close>

fun property :: "json \<Rightarrow> string \<Rightarrow> json option" where
  "property (JObj fs) k = map_of fs k"
| "property v k = None"

text \<open>JavaScript's truthiness, for \<^verbatim>\<open>!message\<close>.\<close>

fun truthy :: "json option \<Rightarrow> bool" where
  "truthy None = False"
| "truthy (Some JNull) = False"
| "truthy (Some (JBool b)) = b"
| "truthy (Some (JNum n)) = (n \<noteq> 0)"
| "truthy (Some (JStr t)) = (t \<noteq> [])"
| "truthy (Some (JArr xs)) = True"
| "truthy (Some (JObj fs)) = True"

text \<open>\<^verbatim>\<open>typeof message\<close> is \<^verbatim>\<open>"string"\<close>: the text, if so.\<close>

fun string_of :: "json option \<Rightarrow> string option" where
  "string_of (Some (JStr t)) = Some t"
| "string_of v = None"

text \<open>The argument of \<^verbatim>\<open>getByName\<close> as a name: a string is the name itself.\<close>

fun session_name :: "env \<Rightarrow> json \<Rightarrow> js_error + string" where
  "session_name e (JStr t) = Inr t"
| "session_name e v = name_of_value e v"

fun message_json :: "ChatMessage \<Rightarrow> json" where
  "message_json m =
     JObj [(''role'', JStr (role_name (role m))), (''content'', JStr (content m))]"

text \<open>
  The body of the \<^verbatim>\<open>try\<close> block of \<^verbatim>\<open>POST /api/chat\<close>: the response it returns or the
  error it throws, and the namespace it leaves. Destructuring \<^verbatim>\<open>null\<close> throws a
  \<^verbatim>\<open>TypeError\<close>; the default \<^verbatim>\<open>"default"\<close> stands in for an absent \<^verbatim>\<open>sessionId\<close> only.
\<close>

definition chat_try :: "env \<Rightarrow> request \<Rightarrow> namespace \<Rightarrow> (js_error + response) \<times> namespace" where
  "chat_try e req w =
     (case body req of
        None \<Rightarrow> (Inl SyntaxError, w)
      | Some JNull \<Rightarrow> (Inl TypeError, w)
      | Some b \<Rightarrow>
          (let message = property b ''message'';
               sessionId = (case property b ''sessionId'' of
                              None \<Rightarrow> JStr ''default'' | Some v \<Rightarrow> v)
           in case (if truthy message then string_of message else None) of
                None \<Rightarrow>
                  (Inr (Response_json (JObj [(''error'', JStr ''Message is required'')])
                          400 []), w)
              | Some text \<Rightarrow>
                  (case session_name e sessionId of
                     Inl err \<Rightarrow> (Inl err, w)
                   | Inr name \<Rightarrow>
                       (let out = chat e text (getByName w name);
                            w' = w(name \<mapsto> storage out)
                        in case returned out of
                             Inl err \<Rightarrow> (Inl err, w')
                           | Inr reply \<Rightarrow>
                               (Inr (Response_json
                                       (JObj [(''response'', JStr reply),
                                              (''sessionId'', sessionId)])
                                       200 json_headers), w')))))"

text \<open>The \<^verbatim>\<open>catch\<close> of the route: any error becomes the 500 response.\<close>

definition chat_route :: "env \<Rightarrow> request \<Rightarrow> namespace \<Rightarrow> response \<times> namespace" where
  "chat_route e req w =
     (case chat_try e req w of
        (Inr resp, w') \<Rightarrow> (resp, w')
      | (Inl err, w') \<Rightarrow>
          (Response_json (JObj [(''error'', JStr ''Failed to process chat request'')])
             500 [(''Access-Control-Allow-Origin'', ''*'')], w'))"

text \<open>\<^verbatim>\<open>url.searchParams.get("sessionId") || "default"\<close>: the first pair of that name,
  unless it is absent or empty.\<close>

definition query_session :: "request \<Rightarrow> string" where
  "query_session req =
     (case map_of (searchParams req) ''sessionId'' of
        None \<Rightarrow> ''default''
      | Some v \<Rightarrow> if v = [] then ''default'' else v)"

definition history_route :: "request \<Rightarrow> namespace \<Rightarrow> response \<times> namespace" where
  "history_route req w =
     (let sessionId = query_session req;
          stub = getByName w sessionId;
          history = getHistory stub
      in (Response_json
            (JObj [(''history'', JArr (map message_json history)),
                   (''sessionId'', JStr sessionId)])
            200 json_headers,
          w(sessionId \<mapsto> stub)))"

definition clear_route :: "request \<Rightarrow> namespace \<Rightarrow> response \<times> namespace" where
  "clear_route req w =
     (let sessionId = query_session req;
          stub = getByName w sessionId
      in (Response_json (JObj [(''success'', JBool True), (''sessionId'', JStr sessionId)])
            200 json_headers,
          w(sessionId \<mapsto> clearHistory stub)))"

definition fetch :: "env \<Rightarrow> request \<Rightarrow> namespace \<Rightarrow> response \<times> namespace" where
  "fetch e req w =
     (if http_method req = ''OPTIONS'' then
        (\<lparr>status = 200, headers = preflight_headers, payload = NoBody\<rparr>, w)
      else if pathname req = ''/api/chat'' \<and> http_method req = ''POST'' then chat_route e req w
      else if pathname req = ''/api/history'' \<and> http_method req = ''GET'' then history_route req w
      else if pathname req = ''/api/clear'' \<and> http_method req = ''DELETE'' then clear_route req w
      else if pathname req = ''/api/health'' then
        (Response_json (JObj [(''status'', JStr ''ok''), (''timestamp'', JStr (now_iso e))])
           200 [], w)
      else (\<lparr>status = 404, headers = [], payload = TextBody ''Not Found''\<rparr>, w))"


section \<open>Sequences of requests\<close>



section \<open>Example platforms and requests\<close>

text \<open>A platform whose inference call always throws, and one whose inference call
  always resolves to a given result.\<close>

definition failing_env :: env where
  "failing_env =
     \<lparr>AI_run = (\<lambda>m msgs. Inl (Thrown ''inference failed'')),
      name_of_value = (\<lambda>v. Inl TypeError),
      now_iso = ''2024-01-15T10:30:00.000Z''\<rparr>"

definition canned_env :: "ai_output \<Rightarrow> env" where
  "canned_env out =
     \<lparr>AI_run = (\<lambda>m msgs. Inr out),
      name_of_value = (\<lambda>v. Inl TypeError),
      now_iso = ''2024-01-15T10:30:00.000Z''\<rparr>"

text \<open>A platform whose inference call resolves to a given result when it is given the
  model of the source and one expected message list, and throws on anything else.\<close>

definition scripted_env :: "ChatMessage list \<Rightarrow> ai_output \<Rightarrow> env" where
  "scripted_env expected out =
     \<lparr>AI_run = (\<lambda>m msgs. if m = model_name \<and> msgs = expected then Inr out
                          else Inl (Thrown ''unexpected inference input'')),
      name_of_value = (\<lambda>v. Inl TypeError),
      now_iso = ''2024-01-15T10:30:00.000Z''\<rparr>"


definition post_chat :: "json option \<Rightarrow> request" where
  "post_chat b = \<lparr>http_method = ''POST'', pathname = ''/api/chat'', searchParams = [], body = b\<rparr>"

section \<open>The ordered log\<close>

lemma push_rows_eq:
  "push_rows rs acc = acc @ map (\<lambda>r. \<lparr>role = row_role r, content = row_content r\<rparr>) rs"
  by (induction rs arbitrary: acc) simp_all

text \<open>Sorting by id leaves a row whose id is the largest at the end.\<close>

lemma insort_key_snoc:
  "f x \<le> f y \<Longrightarrow> insort_key f x (zs @ [y]) = insort_key f x zs @ [y]"
  by (induction zs) simp_all

lemma foldr_insort_snoc:
  "list_all (\<lambda>x. f x \<le> f y) xs \<Longrightarrow>
     foldr (insort_key f) xs (zs @ [y]) = foldr (insort_key f) xs zs @ [y]"
  by (induction xs) (simp_all add: insort_key_snoc)

lemma sort_key_snoc:
  "list_all (\<lambda>x. f x \<le> f y) xs \<Longrightarrow> sort_key f (xs @ [y]) = sort_key f xs @ [y]"
  using foldr_insort_snoc [of f y xs "[]"] by (simp add: sort_key_def)

lemma row_id_le_max_id: "list_all (\<lambda>r. row_id r \<le> max_id rs) rs"
  unfolding max_id_def list_all_iff
  by (induction rs) (auto simp: max_def)

text \<open>In every storage, whatever its rows and counter, an insert shows up last.\<close>

lemma getHistory_addMessage:
  "getHistory (addMessage r c s) = getHistory s @ [\<lparr>role = r, content = c\<rparr>]"
proof -
  let ?i = "Suc (max (sqlite_sequence s) (max_id (messages s)))"
  let ?new = "\<lparr>row_id = ?i, row_role = r, row_content = c\<rparr>"
  have "list_all (\<lambda>x. row_id x \<le> row_id ?new) (messages s)"
    using row_id_le_max_id [of "messages s"] by (auto simp: list_all_iff)
  then have "sort_key row_id (messages s @ [?new]) = sort_key row_id (messages s) @ [?new]"
    by (rule sort_key_snoc)
  then show ?thesis
    by (simp add: getHistory_def addMessage_def sql_insert_def sql_select_def push_rows_eq Let_def)
qed

lemma getHistory_clearHistory: "getHistory (clearHistory s) = []"
  by (simp add: getHistory_def clearHistory_def sql_delete_def sql_select_def)

lemma getHistory_constructor_None: "getHistory (constructor None) = []"
  by (simp add: getHistory_def constructor_def sql_select_def)

lemma getHistory_fold_addMessage:
  "getHistory (fold (\<lambda>m. addMessage (role m) (content m)) ms s) = getHistory s @ ms"
  by (induction ms arbitrary: s) (simp_all add: getHistory_addMessage)

text \<open>
  Claim C2. For every session and every finite sequence of \<^verbatim>\<open>addMessage\<close> calls on it,
  \<^verbatim>\<open>getHistory\<close> afterwards returns what it returned before followed by exactly the
  appended messages, in the order of the calls, each with the role and the content that
  was passed; on a session just created that is exactly the appended messages.
\<close>

theorem history_is_appended_messages:
  "getHistory (fold (\<lambda>m. addMessage (role m) (content m)) ms s) = getHistory s @ ms
   \<and> getHistory (fold (\<lambda>m. addMessage (role m) (content m)) ms (constructor None)) = ms"
  by (simp add: getHistory_fold_addMessage getHistory_constructor_None)

text \<open>
  Claim C7. For every session and every prior log, \<^verbatim>\<open>getHistory\<close> after \<^verbatim>\<open>clearHistory\<close>
  returns the empty sequence, and appends made after the clear give a log that holds
  them alone, in order, and none of the cleared messages.
\<close>

theorem clear_then_fresh_log:
  "getHistory (clearHistory s) = []
   \<and> getHistory (addMessage r c (clearHistory s)) = [\<lparr>role = r, content = c\<rparr>]
   \<and> getHistory (fold (\<lambda>m. addMessage (role m) (content m)) ms (clearHistory s)) = ms"
  by (simp add: getHistory_fold_addMessage getHistory_addMessage getHistory_clearHistory)

section \<open>A chat turn\<close>

lemma chat_throws:
  assumes "AI_run e model_name
             (\<lparr>role = System, content = system_prompt\<rparr> #
                getHistory s @ [\<lparr>role = User, content = m\<rparr>]) = Inl err"
  shows "chat e m s =
           \<lparr>returned = Inl err, storage = addMessage User m s,
            ai_inputs = [(model_name, \<lparr>role = System, content = system_prompt\<rparr> #
                           getHistory s @ [\<lparr>role = User, content = m\<rparr>])]\<rparr>"
  using assms by (simp add: chat_def Let_def getHistory_addMessage)

lemma chat_resolves:
  assumes "AI_run e model_name
             (\<lparr>role = System, content = system_prompt\<rparr> #
                getHistory s @ [\<lparr>role = User, content = m\<rparr>]) = Inr resp"
  shows "chat e m s =
           \<lparr>returned = Inr (assistantMessage resp),
            storage = addMessage Assistant (assistantMessage resp) (addMessage User m s),
            ai_inputs = [(model_name, \<lparr>role = System, content = system_prompt\<rparr> #
                           getHistory s @ [\<lparr>role = User, content = m\<rparr>])]\<rparr>"
  using assms by (simp add: chat_def Let_def getHistory_addMessage)

lemma ai_inputs_chat:
  "ai_inputs (chat e m s) =
     [(model_name, \<lparr>role = System, content = system_prompt\<rparr> #
         getHistory s @ [\<lparr>role = User, content = m\<rparr>])]"
  by (simp add: chat_def Let_def getHistory_addMessage split: sum.split)

lemma getHistory_chat:
  "getHistory (storage (chat e m s)) =
     getHistory s @ \<lparr>role = User, content = m\<rparr> #
       (case returned (chat e m s) of
          Inl err \<Rightarrow> []
        | Inr reply \<Rightarrow> [\<lparr>role = Assistant, content = reply\<rparr>])"
  by (simp add: chat_def Let_def getHistory_addMessage split: sum.split)

text \<open>
  Claim C1 says that after every call of \<^verbatim>\<open>chat\<close> on a session whose log is empty the
  history holds exactly two messages. When the inference call throws, the call leaves
  the user message alone in the log.
\<close>

theorem chat_one_message_counterexample:
  "getHistory (constructor None) = []
   \<and> getHistory (storage (chat failing_env ''hello'' (constructor None))) =
       [\<lparr>role = User, content = ''hello''\<rparr>]"
  by (simp add: chat_def failing_env_def Let_def getHistory_addMessage
        getHistory_constructor_None)

text \<open>
  Claim C1, amended. For every call of \<^verbatim>\<open>chat\<close> with a message \<open>m\<close> on a session whose
  log is empty, the inference call is made with exactly the system preamble followed by
  the user message \<open>m\<close>: when the platform resolves that very call to a result, \<^verbatim>\<open>chat\<close>
  returns the completion read from the result and the history afterwards is exactly the
  user message \<open>m\<close> followed by the assistant message holding that completion; when the
  platform rejects that very call, \<^verbatim>\<open>chat\<close> throws the same error and the history holds
  the user message alone.
\<close>

theorem chat_on_empty_session:
  assumes "getHistory s = []"
  shows "(AI_run e model_name
            [\<lparr>role = System, content = system_prompt\<rparr>, \<lparr>role = User, content = m\<rparr>]
          = Inr resp \<longrightarrow>
            returned (chat e m s) = Inr (assistantMessage resp)
            \<and> getHistory (storage (chat e m s)) =
                [\<lparr>role = User, content = m\<rparr>,
                 \<lparr>role = Assistant, content = assistantMessage resp\<rparr>])
         \<and> (AI_run e model_name
            [\<lparr>role = System, content = system_prompt\<rparr>, \<lparr>role = User, content = m\<rparr>]
          = Inl err \<longrightarrow>
            returned (chat e m s) = Inl err
            \<and> getHistory (storage (chat e m s)) = [\<lparr>role = User, content = m\<rparr>])
         \<and> ai_inputs (chat e m s) =
             [(model_name, [\<lparr>role = System, content = system_prompt\<rparr>,
                            \<lparr>role = User, content = m\<rparr>])]"
  using assms chat_resolves [of e s m resp] chat_throws [of e s m err]
  by (auto simp: getHistory_addMessage ai_inputs_chat)

theorem chat_on_empty_session_witness:
  "getHistory (constructor None) = []
   \<and> returned (chat (scripted_env [\<lparr>role = System, content = system_prompt\<rparr>,
                                   \<lparr>role = User, content = ''hello''\<rparr>] (AiText ''Hi!''))
                ''hello'' (constructor None)) = Inr ''Hi!''
   \<and> getHistory (storage (chat (scripted_env [\<lparr>role = System, content = system_prompt\<rparr>,
                                   \<lparr>role = User, content = ''hello''\<rparr>] (AiText ''Hi!''))
                ''hello'' (constructor None))) =
       [\<lparr>role = User, content = ''hello''\<rparr>, \<lparr>role = Assistant, content = ''Hi!''\<rparr>]
   \<and> returned (chat failing_env ''hello'' (constructor None)) = Inl (Thrown ''inference failed'')"
proof -
  have h: "getHistory (constructor None) = []"
    by (rule getHistory_constructor_None)
  show ?thesis
    using h
      chat_on_empty_session [OF h,
        of "scripted_env [\<lparr>role = System, content = system_prompt\<rparr>,
                          \<lparr>role = User, content = ''hello''\<rparr>] (AiText ''Hi!'')"
           "''hello''" "AiText ''Hi!''" "Thrown ''inference failed''"]
      chat_on_empty_session [OF h,
        of failing_env "''hello''" "AiText ''Hi!''" "Thrown ''inference failed''"]
    by (simp add: scripted_env_def failing_env_def)
qed

section \<open>The chat route\<close>


lemma chat_try_unparseable: "body req = None \<Longrightarrow> chat_try e req w = (Inl SyntaxError, w)"
  by (simp add: chat_try_def)

lemma chat_try_null: "body req = Some JNull \<Longrightarrow> chat_try e req w = (Inl TypeError, w)"
  by (simp add: chat_try_def)

lemma chat_try_invalid:
  assumes "body req = Some b" and "b \<noteq> JNull"
    and "(if truthy (property b ''message'') then string_of (property b ''message'') else None) = None"
  shows "chat_try e req w =
           (Inr (Response_json (JObj [(''error'', JStr ''Message is required'')]) 400 []), w)"
  using assms by (cases b) (auto simp: chat_try_def Let_def split: if_splits option.splits)

lemma chat_try_valid:
  assumes "body req = Some b" and "property b ''message'' = Some (JStr m)" and "m \<noteq> []"
    and "session_name e (case property b ''sessionId'' of None \<Rightarrow> JStr ''default'' | Some v \<Rightarrow> v) = Inr A"
  shows "chat_try e req w =
           (case returned (chat e m (getByName w A)) of
              Inl err \<Rightarrow> Inl err
            | Inr reply \<Rightarrow>
                Inr (Response_json
                       (JObj [(''response'', JStr reply),
                              (''sessionId'', (case property b ''sessionId'' of
                                                 None \<Rightarrow> JStr ''default'' | Some v \<Rightarrow> v))])
                       200 json_headers),
            w(A \<mapsto> storage (chat e m (getByName w A))))"
  using assms by (cases b) (simp_all add: chat_try_def Let_def split: sum.split)

lemma fetch_chat_route:
  "http_method req = ''POST'' \<Longrightarrow> pathname req = ''/api/chat'' \<Longrightarrow>
     fetch e req w = chat_route e req w"
  by (simp add: fetch_def)

text \<open>
  Claim C10. For every \<^verbatim>\<open>POST /api/chat\<close> request whose body does not parse as JSON, the
  response has status 500 with body \<^verbatim>\<open>{"error": "Failed to process chat request"}\<close>
  (not the 400 of a validation error), and the namespace is unchanged.
\<close>

theorem unparseable_body_is_500:
  assumes "http_method req = ''POST''" and "pathname req = ''/api/chat''" and "body req = None"
  shows "fetch e req w =
           (\<lparr>status = 500, headers = [(''Access-Control-Allow-Origin'', ''*'')],
             payload = JsonBody (JObj [(''error'', JStr ''Failed to process chat request'')])\<rparr>, w)"
  using assms by (simp add: fetch_def chat_route_def chat_try_unparseable Response_json_def)

theorem unparseable_body_is_500_witness:
  "http_method (post_chat None) = ''POST'' \<and> pathname (post_chat None) = ''/api/chat''
   \<and> body (post_chat None) = None
   \<and> fetch failing_env (post_chat None) Map.empty =
       (\<lparr>status = 500, headers = [(''Access-Control-Allow-Origin'', ''*'')],
         payload = JsonBody (JObj [(''error'', JStr ''Failed to process chat request'')])\<rparr>,
        Map.empty)"
  using unparseable_body_is_500 [of "post_chat None" failing_env Map.empty]
  by (simp add: post_chat_def)

text \<open>
  Claim C6. Every \<^verbatim>\<open>POST /api/chat\<close> whose JSON body lacks a message field, or whose
  message is the empty string or not a string, is to be answered 400 with
  \<^verbatim>\<open>{"error": "Message is required"}\<close>. The handler does not do so for the body \<^verbatim>\<open>null\<close>,
  which is JSON and has no message field: destructuring it throws before the check of
  the message runs, and the answer is the 500 of the \<^verbatim>\<open>catch\<close>. The namespace is
  unchanged.
\<close>

theorem null_body_is_500:
  "fetch e (post_chat (Some JNull)) w =
     (\<lparr>status = 500, headers = [(''Access-Control-Allow-Origin'', ''*'')],
       payload = JsonBody (JObj [(''error'', JStr ''Failed to process chat request'')])\<rparr>, w)"
  by (simp add: fetch_def post_chat_def chat_route_def chat_try_def Response_json_def)

text \<open>Every other body without a message that is a string and not empty gets the 400,
  and the namespace is unchanged.\<close>

lemma invalid_message_is_400:
  assumes "http_method req = ''POST''" and "pathname req = ''/api/chat''"
    and "body req = Some b" and "b \<noteq> JNull"
    and "property b ''message'' = None \<or> property b ''message'' = Some (JStr [])
         \<or> string_of (property b ''message'') = None"
  shows "fetch e req w =
           (\<lparr>status = 400, headers = [],
             payload = JsonBody (JObj [(''error'', JStr ''Message is required'')])\<rparr>, w)"
proof -
  have inv: "(if truthy (property b ''message'') then string_of (property b ''message'') else None)
               = None"
    using assms(5) by auto
  show ?thesis
    using assms(1,2) chat_try_invalid [OF assms(3,4) inv, of e w]
    by (simp add: fetch_def chat_route_def Response_json_def)
qed

lemma invalid_message_examples:
  "fetch failing_env (post_chat (Some (JObj [(''message'', JStr [])]))) Map.empty =
     (\<lparr>status = 400, headers = [],
       payload = JsonBody (JObj [(''error'', JStr ''Message is required'')])\<rparr>, Map.empty)
   \<and> fetch failing_env (post_chat (Some (JObj [(''sessionId'', JStr ''abc'')]))) Map.empty =
     (\<lparr>status = 400, headers = [],
       payload = JsonBody (JObj [(''error'', JStr ''Message is required'')])\<rparr>, Map.empty)
   \<and> fetch failing_env (post_chat (Some (JNum 5))) Map.empty =
     (\<lparr>status = 400, headers = [],
       payload = JsonBody (JObj [(''error'', JStr ''Message is required'')])\<rparr>, Map.empty)"
  using invalid_message_is_400 [of "post_chat (Some (JObj [(''message'', JStr [])]))"
          "JObj [(''message'', JStr [])]" failing_env Map.empty]
        invalid_message_is_400 [of "post_chat (Some (JObj [(''sessionId'', JStr ''abc'')]))"
          "JObj [(''sessionId'', JStr ''abc'')]" failing_env Map.empty]
        invalid_message_is_400 [of "post_chat (Some (JNum 5))" "JNum 5" failing_env Map.empty]
  by (simp add: post_chat_def)

text \<open>
  Claim C3. For every session state, if the inference call inside \<^verbatim>\<open>chat\<close> throws,
  then \<^verbatim>\<open>chat\<close> throws that error, no assistant message is appended, and the user
  message appended at the start stays in the log; and \<^verbatim>\<open>POST /api/chat\<close> with a valid
  message for that session answers 500 with the body
  \<^verbatim>\<open>{"error": "Failed to process chat request"}\<close>, the session's history being the
  former one followed by the user message.
\<close>

theorem inference_failure_keeps_user_message:
  assumes "AI_run e model_name
             (\<lparr>role = System, content = system_prompt\<rparr> #
                getHistory s @ [\<lparr>role = User, content = m\<rparr>]) = Inl err"
  shows "returned (chat e m s) = Inl err
         \<and> getHistory (storage (chat e m s)) = getHistory s @ [\<lparr>role = User, content = m\<rparr>]
         \<and> (http_method req = ''POST'' \<and> pathname req = ''/api/chat'' \<and> body req = Some b
              \<and> property b ''message'' = Some (JStr m) \<and> m \<noteq> []
              \<and> session_name e (case property b ''sessionId'' of
                                    None \<Rightarrow> JStr ''default'' | Some v \<Rightarrow> v) = Inr A
              \<and> getByName w A = s \<longrightarrow>
              fst (fetch e req w) =
                \<lparr>status = 500, headers = [(''Access-Control-Allow-Origin'', ''*'')],
                 payload = JsonBody (JObj [(''error'', JStr ''Failed to process chat request'')])\<rparr>
              \<and> getHistory (getByName (snd (fetch e req w)) A) =
                  getHistory (getByName w A) @ [\<lparr>role = User, content = m\<rparr>])"
proof -
  have c: "chat e m s =
             \<lparr>returned = Inl err, storage = addMessage User m s,
              ai_inputs = [(model_name, \<lparr>role = System, content = system_prompt\<rparr> #
                             getHistory s @ [\<lparr>role = User, content = m\<rparr>])]\<rparr>"
    using assms by (rule chat_throws)
  have "returned (chat e m s) = Inl err"
    by (simp add: c)
  moreover have "getHistory (storage (chat e m s)) =
                   getHistory s @ [\<lparr>role = User, content = m\<rparr>]"
    by (simp add: c getHistory_addMessage)
  moreover {
    assume r: "http_method req = ''POST''" "pathname req = ''/api/chat''" "body req = Some b"
      and v: "property b ''message'' = Some (JStr m)" "m \<noteq> []"
      and n: "session_name e (case property b ''sessionId'' of
                                None \<Rightarrow> JStr ''default'' | Some v \<Rightarrow> v) = Inr A"
      and s: "getByName w A = s"
    have "chat_try e req w = (Inl err, w(A \<mapsto> addMessage User m s))"
      using chat_try_valid [OF r(3) v n, of w] by (simp add: s c)
    then have "fetch e req w =
                 (\<lparr>status = 500, headers = [(''Access-Control-Allow-Origin'', ''*'')],
                   payload = JsonBody (JObj [(''error'', JStr ''Failed to process chat request'')])\<rparr>,
                  w(A \<mapsto> addMessage User m s))"
      by (simp add: fetch_chat_route [OF r(1,2)] chat_route_def Response_json_def)
    then have "fst (fetch e req w) =
                \<lparr>status = 500, headers = [(''Access-Control-Allow-Origin'', ''*'')],
                 payload = JsonBody (JObj [(''error'', JStr ''Failed to process chat request'')])\<rparr>
              \<and> getHistory (getByName (snd (fetch e req w)) A) =
                  getHistory (getByName w A) @ [\<lparr>role = User, content = m\<rparr>]"
      by (simp add: getByName_def constructor_def getHistory_addMessage s [symmetric])
  }
  ultimately show ?thesis by blast
qed

theorem inference_failure_keeps_user_message_witness:
  "returned (chat failing_env ''Hi'' (constructor None)) = Inl (Thrown ''inference failed'')
   \<and> getHistory (storage (chat failing_env ''Hi'' (constructor None))) =
       [\<lparr>role = User, content = ''Hi''\<rparr>]
   \<and> fst (fetch failing_env
              (post_chat (Some (JObj [(''message'', JStr ''Hi''), (''sessionId'', JStr ''abc'')])))
              Map.empty) =
       \<lparr>status = 500, headers = [(''Access-Control-Allow-Origin'', ''*'')],
        payload = JsonBody (JObj [(''error'', JStr ''Failed to process chat request'')])\<rparr>
   \<and> getHistory (getByName (snd (fetch failing_env
              (post_chat (Some (JObj [(''message'', JStr ''Hi''), (''sessionId'', JStr ''abc'')])))
              Map.empty)) ''abc'') =
       [\<lparr>role = User, content = ''Hi''\<rparr>]"
proof -
  have h: "AI_run failing_env model_name
             (\<lparr>role = System, content = system_prompt\<rparr> #
                getHistory (constructor None) @ [\<lparr>role = User, content = ''Hi''\<rparr>])
           = Inl (Thrown ''inference failed'')"
    by (simp add: failing_env_def)
  have e: "getHistory (constructor None) = []"
    by (simp add: getHistory_def constructor_def sql_select_def)
  show ?thesis
    using inference_failure_keeps_user_message [OF h,
        of "post_chat (Some (JObj [(''message'', JStr ''Hi''), (''sessionId'', JStr ''abc'')]))"
           "JObj [(''message'', JStr ''Hi''), (''sessionId'', JStr ''abc'')]" "''abc''" Map.empty]
    by (simp add: post_chat_def getByName_def e)
qed

section \<open>The completion text\<close>

text \<open>
  Claim C5 says that the completion is the \<^verbatim>\<open>response\<close> field whenever the field is
  present. A result object whose \<^verbatim>\<open>response\<close> is the empty string has the field, and
  the completion is the placeholder text, not the empty string.
\<close>

theorem empty_response_counterexample:
  "assistantMessage (AiObject (Some [])) \<noteq> []
   \<and> returned (chat (canned_env (AiObject (Some []))) ''Hi'' (constructor None)) \<noteq> Inr []"
  by (simp add: fallback_text_def chat_def canned_env_def Let_def)

text \<open>
  Claim C5, amended. For every inference result consumed by \<^verbatim>\<open>chat\<close>: a plain string is
  the completion; for a result object the completion is its \<^verbatim>\<open>response\<close> field when the
  field is present and not the empty string, and the fixed placeholder text when the
  field is absent or the empty string. That completion is what \<^verbatim>\<open>chat\<close> returns and
  appends as the assistant message.
\<close>

theorem completion_of_inference_result:
  "assistantMessage (AiText t) = t
   \<and> assistantMessage (AiObject (Some t)) = (if t = [] then fallback_text else t)
   \<and> assistantMessage (AiObject None) = fallback_text
   \<and> (AI_run e model_name
         (\<lparr>role = System, content = system_prompt\<rparr> #
            getHistory s @ [\<lparr>role = User, content = m\<rparr>]) = Inr resp \<longrightarrow>
       returned (chat e m s) = Inr (assistantMessage resp)
       \<and> getHistory (storage (chat e m s)) =
           getHistory s @ [\<lparr>role = User, content = m\<rparr>,
                           \<lparr>role = Assistant, content = assistantMessage resp\<rparr>])"
  by (simp add: chat_resolves getHistory_addMessage)

theorem completion_of_inference_result_witness:
  "returned (chat (canned_env (AiObject (Some ''Hello!''))) ''Hi'' (constructor None)) = Inr ''Hello!''
   \<and> returned (chat (canned_env (AiObject None)) ''Hi'' (constructor None)) = Inr fallback_text
   \<and> returned (chat (canned_env (AiObject (Some []))) ''Hi'' (constructor None)) = Inr fallback_text
   \<and> returned (chat (canned_env (AiText ''Hello!'')) ''Hi'' (constructor None)) = Inr ''Hello!''"
  using completion_of_inference_result [of "''Hello!''" "canned_env (AiObject (Some ''Hello!''))"
          "constructor None" "''Hi''" "AiObject (Some ''Hello!'')"]
        completion_of_inference_result [of "[]" "canned_env (AiObject None)"
          "constructor None" "''Hi''" "AiObject None"]
        completion_of_inference_result [of "[]" "canned_env (AiObject (Some []))"
          "constructor None" "''Hi''" "AiObject (Some [])"]
        completion_of_inference_result [of "''Hello!''" "canned_env (AiText ''Hello!'')"
          "constructor None" "''Hi''" "AiText ''Hello!''"]
  by (simp add: canned_env_def)

section \<open>Routing\<close>

text \<open>
  Claim C8 says that a request outside the five routes (\<^verbatim>\<open>GET /api/health\<close> among them)
  is answered 404 \<^verbatim>\<open>Not Found\<close>. The health route of the handler does not look at the
  method: a \<^verbatim>\<open>POST\<close> to \<^verbatim>\<open>/api/health\<close> is answered 200 with the health body.
\<close>

theorem health_answers_any_method:
  "fetch e \<lparr>http_method = ''POST'', pathname = ''/api/health'', searchParams = [], body = None\<rparr> w =
     (\<lparr>status = 200, headers = [],
       payload = JsonBody (JObj [(''status'', JStr ''ok''), (''timestamp'', JStr (now_iso e))])\<rparr>, w)"
  by (simp add: fetch_def Response_json_def)

text \<open>Every other request that matches no route gets the fallback.\<close>

lemma fetch_not_found:
  assumes "http_method req \<noteq> ''OPTIONS''" and "pathname req \<noteq> ''/api/health''"
    and "\<not> (pathname req = ''/api/chat'' \<and> http_method req = ''POST'')"
    and "\<not> (pathname req = ''/api/history'' \<and> http_method req = ''GET'')"
    and "\<not> (pathname req = ''/api/clear'' \<and> http_method req = ''DELETE'')"
  shows "fetch e req w = (\<lparr>status = 404, headers = [], payload = TextBody ''Not Found''\<rparr>, w)"
  using assms by (auto simp: fetch_def)

section \<open>Isolation of sessions\<close>










end
